theory Spec2Isabelle
  imports Complex_Main
begin

text \<open>
  The customer feedback dashboard reads a sheet of survey answers (one row per customer,
  an importance and a performance rating for each of six categories) and computes a
  satisfaction percentage per customer, the category averages with their gaps, two company
  figures and a dispersion per category. The two versions of the script
  (\<^verbatim>\<open>customer_feedback_dashboard_final.py\<close> and \<^verbatim>\<open>customer_feedback_dashboard_v6.py\<close>) share
  the loading, scoring and summary lines word for word; the consistency table and the second
  scoring loop of the export exist in the final version only.
\<close>

section \<open>Numbers of the dashboard\<close>

text \<open>
  Every measure cell of the frame is a 64-bit float after \<^verbatim>\<open>pd.to_numeric(..., errors='coerce')\<close>.
  A value is modelled as a real number, one of the two infinities, or NaN (the missing marker of
  pandas). Arithmetic on finite values is exact: rounding, overflow and the sign of zero are
  outside the model. The special values follow IEEE 754.
\<close>

datatype float64 = Finite real | PosInf | NegInf | NaN

fun fneg :: "float64 \<Rightarrow> float64" where
  "fneg (Finite a) = Finite (- a)"
| "fneg PosInf = NegInf"
| "fneg NegInf = PosInf"
| "fneg NaN = NaN"

fun fadd :: "float64 \<Rightarrow> float64 \<Rightarrow> float64" where
  "fadd NaN y = NaN"
| "fadd x NaN = NaN"
| "fadd (Finite a) (Finite b) = Finite (a + b)"
| "fadd PosInf NegInf = NaN"
| "fadd NegInf PosInf = NaN"
| "fadd PosInf y = PosInf"
| "fadd NegInf y = NegInf"
| "fadd (Finite a) y = y"

definition fsub :: "float64 \<Rightarrow> float64 \<Rightarrow> float64" where
  "fsub x y = fadd x (fneg y)"

text \<open>An infinity scaled by a finite factor: \<open>0 * inf\<close> is NaN, a negative factor flips the sign.\<close>

definition scale_inf :: "real \<Rightarrow> float64 \<Rightarrow> float64" where
  "scale_inf a i = (if a = 0 then NaN else if 0 < a then i else fneg i)"

fun fmul :: "float64 \<Rightarrow> float64 \<Rightarrow> float64" where
  "fmul NaN y = NaN"
| "fmul x NaN = NaN"
| "fmul (Finite a) (Finite b) = Finite (a * b)"
| "fmul (Finite a) y = scale_inf a y"
| "fmul x (Finite b) = scale_inf b x"
| "fmul PosInf y = y"
| "fmul NegInf y = fneg y"

text \<open>
  IEEE division, as numpy performs it: a zero divisor gives an infinity or NaN (with a
  warning only), never an exception.
\<close>

fun fdiv :: "float64 \<Rightarrow> float64 \<Rightarrow> float64" where
  "fdiv NaN y = NaN"
| "fdiv x NaN = NaN"
| "fdiv (Finite a) (Finite b) =
     (if b = 0 then (if a = 0 then NaN else if 0 < a then PosInf else NegInf)
      else Finite (a / b))"
| "fdiv (Finite a) y = Finite 0"
| "fdiv x (Finite b) = (if 0 \<le> b then x else fneg x)"
| "fdiv x y = NaN"

fun fsqrt :: "float64 \<Rightarrow> float64" where
  "fsqrt (Finite a) = (if a < 0 then NaN else Finite (sqrt a))"
| "fsqrt PosInf = PosInf"
| "fsqrt NegInf = NaN"
| "fsqrt NaN = NaN"

datatype error = ZeroDivisionError

text \<open>
  What the numbers in a row of \<^verbatim>\<open>df.iterrows()\<close> are depends on the dtype of the name column,
  which is never coerced. When that column holds text its dtype is object, the frame has
  mixed dtypes and a row is a Series of dtype object: its numbers are Python floats (or
  Python ints). When every cell of that column is a number or blank, the whole frame is
  numeric and a row holds numpy scalars.
\<close>

datatype scalars = PythonScalars | NumpyScalars

text \<open>
  Python's \<^verbatim>\<open>/\<close> on its own floats and ints raises \<^verbatim>\<open>ZeroDivisionError\<close> whenever the
  divisor is zero, whatever the dividend (NaN included), and is IEEE division otherwise.
\<close>

definition py_truediv :: "float64 \<Rightarrow> float64 \<Rightarrow> error + float64" where
  "py_truediv x y = (if y = Finite 0 then Inl ZeroDivisionError else Inr (fdiv x y))"

text \<open>The operator \<^verbatim>\<open>/\<close> of the scoring loop, on either kind of number.\<close>

definition truediv :: "scalars \<Rightarrow> float64 \<Rightarrow> float64 \<Rightarrow> error + float64" where
  "truediv k x y = (case k of PythonScalars \<Rightarrow> py_truediv x y | NumpyScalars \<Rightarrow> Inr (fdiv x y))"

text \<open>Python's builtin \<^verbatim>\<open>sum\<close>: a left fold from 0.\<close>

definition py_sum :: "float64 list \<Rightarrow> float64" where
  "py_sum xs = foldl fadd (Finite 0) xs"

text \<open>A list comprehension whose element expression may raise: the first raise ends it.\<close>

fun comprehension :: "('a \<Rightarrow> error + 'b) \<Rightarrow> 'a list \<Rightarrow> error + 'b list" where
  "comprehension f [] = Inr []"
| "comprehension f (x # xs) =
     (case f x of
        Inl e \<Rightarrow> Inl e
      | Inr y \<Rightarrow> (case comprehension f xs of Inl e \<Rightarrow> Inl e | Inr ys \<Rightarrow> Inr (y # ys)))"

section \<open>The survey frame\<close>

datatype category = Timeliness | Competence | Clarity | Quality | Service | Pricing

definition categories :: "category list" where
  "categories = [Timeliness, Competence, Clarity, Quality, Service, Pricing]"

datatype measure = Importance | Performance

text \<open>
  The name column is never coerced: a cell holds a string or whatever number the sheet had,
  a blank cell being NaN.
\<close>

datatype name_cell = NameStr string | NameNum float64

fun notna :: "name_cell \<Rightarrow> bool" where
  "notna (NameStr s) = True"
| "notna (NameNum x) = (x \<noteq> NaN)"

text \<open>
  One row of \<^verbatim>\<open>df\<close>: the name and the twelve measure columns; \<open>cell r c m\<close> is
  \<^verbatim>\<open>row[f"{c}_{m}"]\<close>.
\<close>

record row =
  customer_name :: name_cell
  cell :: "category \<Rightarrow> measure \<Rightarrow> float64"

type_synonym frame = "row list"

text \<open>\<^verbatim>\<open>df = df[df["Customer Name"].notna()].reset_index(drop=True)\<close>\<close>

definition drop_unnamed :: "frame \<Rightarrow> frame" where
  "drop_unnamed df = filter (\<lambda>r. notna (customer_name r)) df"

section \<open>Individual customer reports\<close>

record customer_score =
  total_importance :: float64
  weights :: "float64 list"
  weighted_perf :: "float64 list"
  satisfaction :: float64

text \<open>
  The body of the loop over \<^verbatim>\<open>df.iterrows()\<close> in the display pass:
  \<^verbatim>\<open>total_importance = sum(importance)\<close>,
  \<^verbatim>\<open>weights = [imp / total_importance for imp in importance]\<close>,
  \<^verbatim>\<open>weighted_perf = [p * w for p, w in zip(performance, weights)]\<close>,
  \<^verbatim>\<open>satisfaction = (sum(weighted_perf) / 5) * 100\<close>.
\<close>

definition score_row :: "scalars \<Rightarrow> row \<Rightarrow> error + customer_score" where
  "score_row k r =
     (let importance = map (\<lambda>c. cell r c Importance) categories;
          performance = map (\<lambda>c. cell r c Performance) categories;
          total = py_sum importance
      in case comprehension (\<lambda>imp. truediv k imp total) importance of
           Inl e \<Rightarrow> Inl e
         | Inr ws \<Rightarrow>
             (let wp = map (\<lambda>(p, w). fmul p w) (zip performance ws)
              in case truediv k (py_sum wp) (Finite 5) of
                   Inl e \<Rightarrow> Inl e
                 | Inr q \<Rightarrow>
                     Inr \<lparr>total_importance = total, weights = ws, weighted_perf = wp,
                          satisfaction = fmul q (Finite 100)\<rparr>))"

text \<open>
  The display pass: \<^verbatim>\<open>ratings = []\<close>, then one \<^verbatim>\<open>ratings.append(satisfaction)\<close> per row.
  An exception in a row ends the whole script.
\<close>

fun display_loop :: "scalars \<Rightarrow> frame \<Rightarrow> float64 list \<Rightarrow> error + float64 list" where
  "display_loop k [] ratings = Inr ratings"
| "display_loop k (r # rs) ratings =
     (case score_row k r of
        Inl e \<Rightarrow> Inl e
      | Inr s \<Rightarrow> display_loop k rs (ratings @ [satisfaction s]))"

definition display_pass :: "scalars \<Rightarrow> frame \<Rightarrow> error + float64 list" where
  "display_pass k df = display_loop k df []"

text \<open>
  Building a row from its six importance and six performance values, in category order
  (used for the worked examples below).
\<close>

fun position :: "category \<Rightarrow> nat" where
  "position Timeliness = 0"
| "position Competence = 1"
| "position Clarity = 2"
| "position Quality = 3"
| "position Service = 4"
| "position Pricing = 5"

definition survey_row :: "string \<Rightarrow> float64 list \<Rightarrow> float64 list \<Rightarrow> row" where
  "survey_row n imps perfs =
     \<lparr>customer_name = NameStr n,
      cell = (\<lambda>c m. case m of
                Importance \<Rightarrow> imps ! position c
              | Performance \<Rightarrow> perfs ! position c)\<rparr>"

section \<open>Company-wide summary\<close>

text \<open>\<^verbatim>\<open>df[f"{c}_{m}"]\<close>: one column of the frame.\<close>

definition column :: "frame \<Rightarrow> category \<Rightarrow> measure \<Rightarrow> float64 list" where
  "column df c m = map (\<lambda>r. cell r c m) df"

text \<open>The sum numpy takes over an array; with exact arithmetic the order of additions is immaterial.\<close>

definition np_sum :: "float64 list \<Rightarrow> float64" where
  "np_sum xs = foldl fadd (Finite 0) xs"

text \<open>The values pandas reduces after masking: every NaN replaced by 0.\<close>

definition fill_zero :: "float64 list \<Rightarrow> float64 list" where
  "fill_zero values = map (\<lambda>v. if v = NaN then Finite 0 else v) values"

definition count_notna :: "float64 list \<Rightarrow> nat" where
  "count_notna values = length (filter (\<lambda>v. v \<noteq> NaN) values)"

text \<open>
  \<^verbatim>\<open>Series.mean()\<close> with its default \<^verbatim>\<open>skipna=True\<close>: the sum of the masked values over the
  number of values that are not NaN, and NaN when there is none.
\<close>

definition series_mean :: "float64 list \<Rightarrow> float64" where
  "series_mean values =
     (let count = count_notna values; the_sum = np_sum (fill_zero values)
      in if 0 < count then fdiv the_sum (Finite (real count)) else NaN)"

record summary_row =
  summary_category :: category
  avg_importance :: float64
  avg_performance :: float64
  gap :: float64

definition summary :: "frame \<Rightarrow> summary_row list" where
  "summary df =
     map (\<lambda>c. let i = series_mean (column df c Importance);
                   p = series_mean (column df c Performance)
               in \<lparr>summary_category = c, avg_importance = i, avg_performance = p,
                   gap = fsub p i\<rparr>) categories"

text \<open>
  \<^verbatim>\<open>CSI = (perf_avg / imp_avg) * 100\<close> on the two column means of the summary. Both operands are
  numpy scalars, so the division never raises.
\<close>

definition CSI :: "summary_row list \<Rightarrow> float64" where
  "CSI sm =
     (let imp_avg = series_mean (map avg_importance sm);
          perf_avg = series_mean (map avg_performance sm)
      in fmul (fdiv perf_avg imp_avg) (Finite 100))"

text \<open>\<^verbatim>\<open>np.mean(ratings)\<close> on a list: NaN is not skipped, and the empty list gives NaN.\<close>

definition np_mean :: "float64 list \<Rightarrow> float64" where
  "np_mean xs = fdiv (np_sum xs) (Finite (real (length xs)))"

definition avg_customer_sat :: "float64 list \<Rightarrow> float64" where
  "avg_customer_sat ratings = np_mean ratings"

section \<open>Consistency of customer experience\<close>

text \<open>
  \<^verbatim>\<open>np.std\<close> applied to a Series hands over to \<^verbatim>\<open>Series.std(ddof=0)\<close>, which skips NaN. pandas
  computes the variance in two passes: the mean of the values that are not NaN, then the sum
  of the squared deviations over \<open>count - ddof\<close>; it is NaN when \<open>count \<le> ddof\<close>.
\<close>

definition nanvar :: "float64 list \<Rightarrow> nat \<Rightarrow> float64" where
  "nanvar values ddof =
     (let count = count_notna values
      in if count \<le> ddof then NaN
         else (let avg = fdiv (np_sum (fill_zero values)) (Finite (real count));
                   sqr = map (\<lambda>v. if v = NaN then Finite 0
                                   else (let d = fsub avg v in fmul d d)) values
               in fdiv (np_sum sqr) (Finite (real (count - ddof)))))"

definition series_std :: "float64 list \<Rightarrow> nat \<Rightarrow> float64" where
  "series_std values ddof = fsqrt (nanvar values ddof)"

definition np_std :: "float64 list \<Rightarrow> float64" where
  "np_std values = series_std values 0"

record variation_row =
  variation_category :: category
  difference_in_ratings :: float64

definition variation :: "frame \<Rightarrow> variation_row list" where
  "variation df =
     map (\<lambda>c. \<lparr>variation_category = c,
                difference_in_ratings = np_std (column df c Performance)\<rparr>) categories"

section \<open>Report export\<close>

text \<open>
  The export recomputes each customer's score while it writes the report; the body of that
  second loop over \<^verbatim>\<open>df.iterrows()\<close>.
\<close>

definition score_row_export :: "scalars \<Rightarrow> row \<Rightarrow> error + customer_score" where
  "score_row_export k r =
     (let importance = map (\<lambda>c. cell r c Importance) categories;
          performance = map (\<lambda>c. cell r c Performance) categories;
          total = py_sum importance
      in case comprehension (\<lambda>imp. truediv k imp total) importance of
           Inl e \<Rightarrow> Inl e
         | Inr ws \<Rightarrow>
             (let wp = map (\<lambda>(p, w). fmul p w) (zip performance ws)
              in case truediv k (py_sum wp) (Finite 5) of
                   Inl e \<Rightarrow> Inl e
                 | Inr q \<Rightarrow>
                     Inr \<lparr>total_importance = total, weights = ws, weighted_perf = wp,
                          satisfaction = fmul q (Finite 100)\<rparr>))"

text \<open>
  The export loop appends one section per customer to the report; \<open>written\<close> holds the
  satisfaction values of the sections written so far.
\<close>

fun export_loop :: "scalars \<Rightarrow> frame \<Rightarrow> float64 list \<Rightarrow> error + float64 list" where
  "export_loop k [] written = Inr written"
| "export_loop k (r # rs) written =
     (case score_row_export k r of
        Inl e \<Rightarrow> Inl e
      | Inr s \<Rightarrow> export_loop k rs (written @ [satisfaction s]))"

definition export_pass :: "scalars \<Rightarrow> frame \<Rightarrow> error + float64 list" where
  "export_pass k df = export_loop k df []"

text \<open>
  Before the report is written the ratings are computed again when the list is empty, and
  the average falls back to 0 for an empty list:
  \<^verbatim>\<open>avg_customer_sat = np.mean(ratings) if ratings else 0\<close>.
\<close>

definition ratings_for_export :: "scalars \<Rightarrow> frame \<Rightarrow> float64 list \<Rightarrow> error + float64 list" where
  "ratings_for_export k df ratings =
     (if length ratings = 0 then display_loop k df [] else Inr ratings)"

definition export_avg_customer_sat :: "float64 list \<Rightarrow> float64" where
  "export_avg_customer_sat ratings = (if ratings \<noteq> [] then np_mean ratings else Finite 0)"

section \<open>The first stage of a run\<close>

text \<open>
  The part of the sheet the script keeps, \<^verbatim>\<open>df_raw.iloc[3:, 1:14]\<close>, with its measure columns
  already coerced: the rows from the fourth on, and the three cells of the name column
  above them. Those three cells are sliced away, but they were read with the column and
  take part in its dtype.
\<close>

record sheet =
  name_header :: "name_cell list"
  body :: frame

fun is_text :: "name_cell \<Rightarrow> bool" where
  "is_text (NameStr s) = True"
| "is_text (NameNum x) = False"

text \<open>The name column has dtype object as soon as one of its cells holds text.\<close>

definition row_scalars :: "sheet \<Rightarrow> scalars" where
  "row_scalars sh =
     (if list_ex is_text (name_header sh @ map customer_name (body sh))
      then PythonScalars else NumpyScalars)"

record analysis =
  shown_ratings :: "float64 list"
  shown_summary :: "summary_row list"
  shown_CSI :: float64
  shown_avg_customer_sat :: float64
  shown_variation :: "variation_row list"

text \<open>
  The computing part of the script up to the consistency table: the name filter, the
  display pass, the summary, the two company figures and the dispersion table. Rendering,
  the charts and the label lookups of the key takeaways are not part of the model.
\<close>

definition analyse :: "sheet \<Rightarrow> error + analysis" where
  "analyse sh =
     (let df = drop_unnamed (body sh)
      in case display_pass (row_scalars sh) df of
           Inl e \<Rightarrow> Inl e
         | Inr ratings \<Rightarrow>
             (let sm = summary df
              in Inr \<lparr>shown_ratings = ratings, shown_summary = sm, shown_CSI = CSI sm,
                      shown_avg_customer_sat = avg_customer_sat ratings,
                      shown_variation = variation df\<rparr>))"

section \<open>The scoring formula as the specification words it\<close>

text \<open>
  The specification divides the sum of the contributions by \<open>category_count\<close>, the fixed
  number of categories. This definition follows its words and is only compared with
  \<open>score_row\<close>.
\<close>

definition satisfaction_spec :: "row \<Rightarrow> float64" where
  "satisfaction_spec r =
     (let total = py_sum (map (\<lambda>c. cell r c Importance) categories);
          weight = (\<lambda>c. fdiv (cell r c Importance) total);
          contribution = (\<lambda>c. fmul (cell r c Performance) (weight c));
          category_count = length categories
      in fmul (fdiv (py_sum (map contribution categories)) (Finite (real category_count)))
           (Finite 100))"

section \<open>Worked examples\<close>

definition ex_uniform :: row where
  "ex_uniform = survey_row ''Uniform Ltd'' (map Finite [5, 5, 5, 5, 5, 5]) (map Finite [5, 5, 5, 5, 5, 5])"

definition ex_skewed :: row where
  "ex_skewed = survey_row ''Skewed Ltd'' (map Finite [5, 1, 1, 1, 1, 1]) (map Finite [1, 5, 5, 5, 5, 5])"

definition ex_mixed :: row where
  "ex_mixed = survey_row ''Mixed Ltd'' (map Finite [4, 2, 3, 5, 1, 5]) (map Finite [3, 4, 5, 2, 4, 1])"


definition ex_partial :: row where
  "ex_partial = survey_row ''Partial Ltd''
     [NaN, Finite 2, Finite 3, Finite 5, Finite 1, Finite 5]
     [Finite 1, Finite 2, NaN, Finite 4, Finite 2, Finite 3]"

text \<open>A sheet row with a blank name cell, which the name filter drops.\<close>

definition blank_row :: row where
  "blank_row = \<lparr>customer_name = NameNum NaN, cell = (\<lambda>c m. Finite 3)\<rparr>"

text \<open>A sheet whose three skipped rows are empty, as the script's comment on the slice has it.\<close>

definition blank_top :: "frame \<Rightarrow> sheet" where
  "blank_top df = \<lparr>name_header = [NameNum NaN, NameNum NaN, NameNum NaN], body = df\<rparr>"






section \<open>Finite rows in real arithmetic\<close>

fun is_finite :: "float64 \<Rightarrow> bool" where
  "is_finite (Finite a) = True"
| "is_finite x = False"

text \<open>The number a finite value holds (0 for the others, which the properties below exclude).\<close>

fun fin_val :: "float64 \<Rightarrow> real" where
  "fin_val (Finite a) = a"
| "fin_val x = 0"

definition arith_mean :: "real list \<Rightarrow> real" where
  "arith_mean xs = sum_list xs / real (length xs)"

text \<open>
  The satisfaction percentage of a row as a real number: the sum of the contributions over
  5, times 100.
\<close>

definition satisfaction_pct :: "row \<Rightarrow> real" where
  "satisfaction_pct r =
     (let total_importance = (\<Sum>c\<leftarrow>categories. fin_val (cell r c Importance));
          weight = (\<lambda>c. fin_val (cell r c Importance) / total_importance);
          contribution = (\<lambda>c. fin_val (cell r c Performance) * weight c)
      in (\<Sum>c\<leftarrow>categories. contribution c) / 5 * 100)"


text \<open>
  The population standard deviation as the specification words it: the square root of the
  mean squared deviation from the mean, the divisor being the number of values.
\<close>

definition population_std :: "real list \<Rightarrow> real" where
  "population_std xs =
     sqrt ((\<Sum>x\<leftarrow>xs. (x - arith_mean xs)\<^sup>2) / real (length xs))"

definition ex_gappy :: row where
  "ex_gappy = survey_row ''Gappy Ltd''
     [Finite 3, Finite 3, Finite 3, Finite 3, Finite 3, Finite 3]
     [NaN, Finite 5, Finite 3, Finite 3, Finite 3, Finite 3]"

section \<open>The scoring lines in binary64\<close>

text \<open>
  The arithmetic above is exact, the script's is binary64. Each binary64 operation returns
  the representable number nearest to the exact result: it differs from it by at most
  2^-53 of its magnitude, or by at most 2^-1075 when the result lies below the normal range,
  and it has the sign of the exact result. Python's \<^verbatim>\<open>sum\<close> of six numbers differs from the
  exact sum by at most 6 * 2^-53 of the sum of the magnitudes, with the left fold of
  Python up to 3.11 and with the compensated loop of Python 3.12 alike. The two relations
  below admit every result that is at least that accurate, with room to spare.
\<close>

definition unit_err :: real where
  "unit_err = 1 / 2 ^ 45"

definition underflow_err :: real where
  "underflow_err = 1 / 2 ^ 100"


definition near_sum :: "real list \<Rightarrow> real \<Rightarrow> bool" where
  "near_sum xs y \<longleftrightarrow> \<bar>y - sum_list xs\<bar> \<le> unit_err * (\<Sum>x\<leftarrow>xs. \<bar>x\<bar>)"






section \<open>Properties of the arithmetic\<close>


lemma foldl_fadd_Finite: "foldl fadd (Finite a) (map Finite xs) = Finite (a + sum_list xs)"
  by (induction xs arbitrary: a) (simp_all add: add.assoc)


lemma py_sum_Finite: "py_sum (map Finite xs) = Finite (sum_list xs)"
  by (simp add: py_sum_def foldl_fadd_Finite)


section \<open>Properties of the per-customer score\<close>

lemma comprehension_truediv:
  "comprehension (\<lambda>x. truediv k x t) xs =
     (if k = PythonScalars \<and> t = Finite 0 \<and> xs \<noteq> [] then Inl ZeroDivisionError
      else Inr (map (\<lambda>x. fdiv x t) xs))"
  by (induction xs) (auto simp: truediv_def py_truediv_def split: scalars.splits)

lemma zip_map_same:
  "map (\<lambda>(p, w). h p w) (zip (map f xs) (map g xs)) = map (\<lambda>x. h (f x) (g x)) xs"
  by (induction xs) auto

text \<open>
  The loop body in closed form: it raises exactly when the row holds Python numbers and the
  importance total is zero.
\<close>

lemma score_row_eq:
  "score_row k r =
     (let total = py_sum (map (\<lambda>c. cell r c Importance) categories);
          wp = map (\<lambda>c. fmul (cell r c Performance) (fdiv (cell r c Importance) total)) categories
      in if k = PythonScalars \<and> total = Finite 0 then Inl ZeroDivisionError
         else Inr \<lparr>total_importance = total,
                   weights = map (\<lambda>c. fdiv (cell r c Importance) total) categories,
                   weighted_perf = wp,
                   satisfaction = fmul (fdiv (py_sum wp) (Finite 5)) (Finite 100)\<rparr>)"
proof -
  have ne: "categories \<noteq> []" by (simp add: categories_def)
  show ?thesis
    unfolding score_row_def Let_def comprehension_truediv
    using ne by (simp add: truediv_def py_truediv_def zip_map_same comp_def split: scalars.splits)
qed

text \<open>
  C1, as the specification states it: the satisfaction percentage is the sum of the
  contributions divided by the number of categories (6), times 100. The script divides by
  the top of the rating scale, 5, instead: for the customer who rates everything 5 it reports
  100, where the stated formula gives 250/3.
\<close>

theorem satisfaction_category_count_counterexample:
  "map_sum id satisfaction (score_row PythonScalars ex_uniform)
     \<noteq> Inr (satisfaction_spec ex_uniform)"
  by (simp add: score_row_eq satisfaction_spec_def ex_uniform_def survey_row_def
      categories_def py_sum_def)

text \<open>
  C1, amended: for every row whose importance total is not zero (on a zero total the
  division raises or returns NaN or an infinity, according to the kind of number), the
  score is returned with \<open>total_importance\<close> the sum of the six importance values,
  \<open>weight[i] = importance[i] / total_importance\<close>, \<open>contribution[i] = performance[i] *
  weight[i]\<close>, and the satisfaction percentage equal to the sum of the contributions divided
  by 5, times 100. This holds whichever kind of number the row holds.
\<close>

theorem satisfaction_formula:
  assumes "py_sum (map (\<lambda>c. cell r c Importance) categories) \<noteq> Finite 0"
  shows "\<exists>s. score_row k r = Inr s
           \<and> total_importance s = py_sum (map (\<lambda>c. cell r c Importance) categories)
           \<and> weights s = map (\<lambda>c. fdiv (cell r c Importance) (total_importance s)) categories
           \<and> weighted_perf s =
               map (\<lambda>c. fmul (cell r c Performance)
                           (fdiv (cell r c Importance) (total_importance s))) categories
           \<and> satisfaction s = fmul (fdiv (py_sum (weighted_perf s)) (Finite 5)) (Finite 100)"
  using assms by (simp add: score_row_eq Let_def)

theorem satisfaction_formula_witness:
  "py_sum (map (\<lambda>c. cell ex_mixed c Importance) categories) \<noteq> Finite 0
   \<and> (\<exists>s. score_row PythonScalars ex_mixed = Inr s
           \<and> total_importance s = py_sum (map (\<lambda>c. cell ex_mixed c Importance) categories)
           \<and> weights s = map (\<lambda>c. fdiv (cell ex_mixed c Importance) (total_importance s)) categories
           \<and> weighted_perf s =
               map (\<lambda>c. fmul (cell ex_mixed c Performance)
                           (fdiv (cell ex_mixed c Importance) (total_importance s))) categories
           \<and> satisfaction s = fmul (fdiv (py_sum (weighted_perf s)) (Finite 5)) (Finite 100))"
proof -
  have h: "py_sum (map (\<lambda>c. cell ex_mixed c Importance) categories) \<noteq> Finite 0"
    by (simp add: ex_mixed_def survey_row_def categories_def py_sum_def)
  from satisfaction_formula [OF h, of PythonScalars] h show ?thesis by (rule conjI [rotated])
qed

text \<open>
  C2, as the specification states it: importance [5,1,1,1,1,1] and performance [1,5,5,5,5,5]
  give a satisfaction of 50.0. The script does not report 50 for this row.
\<close>

theorem skewed_scenario_counterexample:
  "map_sum id satisfaction (score_row PythonScalars ex_skewed) \<noteq> Inr (Finite 50)"
  by (simp add: score_row_eq ex_skewed_def survey_row_def categories_def py_sum_def)

text \<open>
  C2, amended: for that row the scorer yields \<open>total_importance = 10\<close>, the weights
  [0.5, 0.1, 0.1, 0.1, 0.1, 0.1], the contributions [0.5, 0.5, 0.5, 0.5, 0.5, 0.5], and a
  satisfaction of 60.0, which is (3.0 / 5) * 100.
\<close>

theorem skewed_scenario:
  "score_row k ex_skewed =
     Inr \<lparr>total_importance = Finite 10,
          weights = map Finite [1/2, 1/10, 1/10, 1/10, 1/10, 1/10],
          weighted_perf = map Finite [1/2, 1/2, 1/2, 1/2, 1/2, 1/2],
          satisfaction = Finite 60\<rparr>"
  by (simp add: score_row_eq ex_skewed_def survey_row_def categories_def py_sum_def)

section \<open>A zero importance total\<close>





section \<open>The export pass against the display pass\<close>

text \<open>
  The loop of the export section repeats the scoring lines of the display loop word for
  word, so the two passes return the same values on the same frame.
\<close>

lemma score_row_export_eq: "score_row_export k r = score_row k r"
  by (simp add: score_row_export_def score_row_def)

lemma export_loop_eq: "export_loop k rs acc = display_loop k rs acc"
  by (induction rs arbitrary: acc) (simp_all add: score_row_export_eq split: sum.splits)

lemma export_pass_eq: "export_pass k df = display_pass k df"
  by (simp add: export_pass_def display_pass_def export_loop_eq)

text \<open>A display pass that ends normally has scored every row and appended its satisfaction.\<close>

lemma display_loop_InrD:
  "display_loop k rs acc = Inr out \<Longrightarrow>
     \<exists>ss. map (score_row k) rs = map Inr ss \<and> out = acc @ map satisfaction ss"
proof (induction rs arbitrary: acc)
  case Nil
  then show ?case by simp
next
  case (Cons x xs)
  from Cons.prems obtain s where s: "score_row k x = Inr s"
    and tl: "display_loop k xs (acc @ [satisfaction s]) = Inr out"
    by (auto split: sum.splits)
  from Cons.IH [OF tl] obtain ss where
    "map (score_row k) xs = map Inr ss" "out = (acc @ [satisfaction s]) @ map satisfaction ss"
    by blast
  with s have "map (score_row k) (x # xs) = map Inr (s # ss)
      \<and> out = acc @ map satisfaction (s # ss)"
    by simp
  then show ?case by (intro exI [of _ "s # ss"])
qed

text \<open>The list of ratings that the display pass left is kept as it is by the export section.\<close>

lemma ratings_for_export_keeps:
  "display_pass k df = Inr ratings \<Longrightarrow> ratings_for_export k df ratings = Inr ratings"
  by (simp add: ratings_for_export_def display_pass_def)

section \<open>Category averages\<close>

lemma fadd_zero_right: "fadd a (Finite 0) = a"
  by (cases a) simp_all

text \<open>Summing with the masked entries set to 0 is summing the entries that are not NaN.\<close>

lemma foldl_fadd_masked:
  "foldl fadd a (map (\<lambda>v. if v = NaN then Finite 0 else g v) xs)
     = foldl fadd a (map g (filter (\<lambda>v. v \<noteq> NaN) xs))"
  by (induction xs arbitrary: a) (simp_all add: fadd_zero_right)

lemma np_sum_fill_zero: "np_sum (fill_zero xs) = np_sum (filter (\<lambda>v. v \<noteq> NaN) xs)"
  using foldl_fadd_masked [of "Finite 0" "\<lambda>v. v" xs] by (simp add: np_sum_def fill_zero_def)

lemma series_mean_skips_NaN: "series_mean xs = np_mean (filter (\<lambda>v. v \<noteq> NaN) xs)"
  unfolding series_mean_def np_mean_def count_notna_def np_sum_fill_zero Let_def
  by (simp add: np_sum_def)

lemma column_filter:
  "column (filter (\<lambda>r. cell r c m \<noteq> NaN) df) c m = filter (\<lambda>v. v \<noteq> NaN) (column df c m)"
  by (simp add: column_def filter_map comp_def)

text \<open>
  C10: the summary has one row per category, in category order, and for every category the
  average importance is the plain mean of that importance column over only the rows whose
  cell in that column is not missing; likewise the average performance. Whether a row counts
  for a category depends on its cell in that one column only, so a row with a missing value
  in one category still counts in the averages of its other categories.
\<close>

theorem category_means_skip_missing:
  "map summary_category (summary df) = categories
   \<and> map avg_importance (summary df) =
       map (\<lambda>c. np_mean (column (filter (\<lambda>r. cell r c Importance \<noteq> NaN) df) c Importance))
         categories
   \<and> map avg_performance (summary df) =
       map (\<lambda>c. np_mean (column (filter (\<lambda>r. cell r c Performance \<noteq> NaN) df) c Performance))
         categories"
  by (simp add: summary_def Let_def comp_def series_mean_skips_NaN column_filter)

text \<open>
  The first row below lacks its Timeliness importance and its Clarity performance; it still
  counts in the ten other averages.
\<close>

theorem category_means_skip_missing_witness:
  "map avg_importance (summary [ex_partial, ex_mixed])
     = [Finite 4, Finite 2, Finite 3, Finite 5, Finite 1, Finite 5]
   \<and> map avg_performance (summary [ex_partial, ex_mixed])
     = [Finite 2, Finite 3, Finite 5, Finite 3, Finite 3, Finite 2]"
  using category_means_skip_missing [of "[ex_partial, ex_mixed]"]
  by (simp add: categories_def column_def np_mean_def np_sum_def ex_partial_def ex_mixed_def
      survey_row_def)

section \<open>A sheet without named rows\<close>

text \<open>
  C7, as the specification states it: when no valid record remains the pipeline fails with
  an empty-dataset error, or signals a no-data result, rather than computing aggregates.
  The script has no such check. For a sheet whose two rows have blank names the first stage
  ends normally, with an empty ratings list and NaN for every aggregate.
\<close>

theorem empty_frame_counterexample:
  "drop_unnamed (body (blank_top [blank_row, blank_row])) = []
   \<and> analyse (blank_top [blank_row, blank_row]) =
       Inr \<lparr>shown_ratings = [],
            shown_summary = map (\<lambda>c. \<lparr>summary_category = c, avg_importance = NaN,
                                       avg_performance = NaN, gap = NaN\<rparr>) categories,
            shown_CSI = NaN,
            shown_avg_customer_sat = NaN,
            shown_variation = map (\<lambda>c. \<lparr>variation_category = c, difference_in_ratings = NaN\<rparr>)
                                categories\<rparr>"
  by (simp add: analyse_def blank_top_def drop_unnamed_def blank_row_def display_pass_def summary_def CSI_def
      column_def series_mean_def count_notna_def avg_customer_sat_def np_mean_def np_sum_def
      variation_def np_std_def series_std_def nanvar_def fsub_def categories_def fill_zero_def)

text \<open>
  C7, amended: if zero valid records remain after the name filter, the scoring and
  aggregation stage raises no error and goes on to compute the aggregates: the ratings list
  is empty, every category average, gap and dispersion is NaN, and so are the CSI and the
  average customer satisfaction.
\<close>

theorem empty_frame_aggregates:
  assumes "drop_unnamed (body sh) = []"
  shows "analyse sh =
       Inr \<lparr>shown_ratings = [],
            shown_summary = map (\<lambda>c. \<lparr>summary_category = c, avg_importance = NaN,
                                       avg_performance = NaN, gap = NaN\<rparr>) categories,
            shown_CSI = NaN,
            shown_avg_customer_sat = NaN,
            shown_variation = map (\<lambda>c. \<lparr>variation_category = c, difference_in_ratings = NaN\<rparr>)
                                categories\<rparr>"
  using assms
  by (simp add: analyse_def display_pass_def summary_def CSI_def
      column_def series_mean_def count_notna_def avg_customer_sat_def np_mean_def np_sum_def
      variation_def np_std_def series_std_def nanvar_def fsub_def categories_def fill_zero_def)

theorem empty_frame_aggregates_witness:
  "drop_unnamed (body (blank_top [blank_row])) = []
   \<and> analyse (blank_top [blank_row]) =
       Inr \<lparr>shown_ratings = [],
            shown_summary = map (\<lambda>c. \<lparr>summary_category = c, avg_importance = NaN,
                                       avg_performance = NaN, gap = NaN\<rparr>) categories,
            shown_CSI = NaN,
            shown_avg_customer_sat = NaN,
            shown_variation = map (\<lambda>c. \<lparr>variation_category = c, difference_in_ratings = NaN\<rparr>)
                                categories\<rparr>"
proof -
  have h: "drop_unnamed (body (blank_top [blank_row])) = []"
    by (simp add: drop_unnamed_def blank_top_def blank_row_def)
  from empty_frame_aggregates [OF h] h show ?thesis by (rule conjI [rotated])
qed

section \<open>The score in real arithmetic\<close>

lemma is_finite_val: "is_finite x \<Longrightarrow> x = Finite (fin_val x)"
  by (cases x) simp_all

lemma py_sum_map_Finite: "py_sum (map (\<lambda>x. Finite (f x)) xs) = Finite (\<Sum>x\<leftarrow>xs. f x)"
  using py_sum_Finite [of "map f xs"] by (simp add: comp_def)

lemma score_row_finite:
  assumes fin: "\<forall>c m. is_finite (cell r c m)"
    and T: "(\<Sum>c\<leftarrow>categories. fin_val (cell r c Importance)) \<noteq> 0"
  shows "score_row k r = Inr
           \<lparr>total_importance = Finite (\<Sum>c\<leftarrow>categories. fin_val (cell r c Importance)),
            weights = map (\<lambda>c. Finite (fin_val (cell r c Importance)
                           / (\<Sum>c\<leftarrow>categories. fin_val (cell r c Importance)))) categories,
            weighted_perf = map (\<lambda>c. Finite (fin_val (cell r c Performance)
                           * (fin_val (cell r c Importance)
                               / (\<Sum>c\<leftarrow>categories. fin_val (cell r c Importance))))) categories,
            satisfaction = Finite (satisfaction_pct r)\<rparr>"
proof -
  let ?T = "\<Sum>c\<leftarrow>categories. fin_val (cell r c Importance)"
  have cellv: "cell r c m = Finite (fin_val (cell r c m))" for c m
    using fin is_finite_val by blast
  have "map (\<lambda>c. cell r c Importance) categories
          = map (\<lambda>c. Finite (fin_val (cell r c Importance))) categories"
    using cellv [of _ Importance] by simp
  then have total: "py_sum (map (\<lambda>c. cell r c Importance) categories) = Finite ?T"
    by (simp only: py_sum_map_Finite)
  have w: "fdiv (cell r c Importance) (Finite ?T) = Finite (fin_val (cell r c Importance) / ?T)" for c
    using T by (subst cellv) simp
  have wp: "fmul (cell r c Performance) (Finite x) = Finite (fin_val (cell r c Performance) * x)" for c x
    by (subst cellv) simp
  show ?thesis
    unfolding score_row_eq total Let_def
    using T by (simp add: w wp py_sum_map_Finite satisfaction_pct_def)
qed



section \<open>Accurate runs\<close>

lemma unit_err_bounds: "0 < unit_err" "unit_err < 1" "0 < underflow_err"
  by (simp_all add: unit_err_def underflow_err_def)





lemma near_sum_nonneg:
  assumes "near_sum xs y" and "\<forall>x\<in>set xs. 0 \<le> x"
  shows "(1 - unit_err) * sum_list xs \<le> y \<and> y \<le> (1 + unit_err) * sum_list xs"
proof -
  have "map abs xs = xs" using assms(2) by (induction xs) auto
  then have "(\<Sum>x\<leftarrow>xs. \<bar>x\<bar>) = sum_list xs" by simp
  with assms(1) show ?thesis by (simp add: near_sum_def algebra_simps abs_le_iff)
qed





text \<open>Over non-negative values an accurate total is 0 exactly when the exact total is.\<close>

lemma accurate_total_zero_iff:
  assumes "near_sum xs y" and "\<forall>x\<in>set xs. 0 \<le> x"
  shows "y = 0 \<longleftrightarrow> sum_list xs = 0"
proof -
  note e = unit_err_bounds
  from near_sum_nonneg [OF assms]
  have lo: "(1 - unit_err) * sum_list xs \<le> y" and hi: "y \<le> (1 + unit_err) * sum_list xs"
    by simp_all
  have s0: "0 \<le> sum_list xs" using assms(2) by (intro sum_list_nonneg) auto
  show ?thesis
  proof
    assume "y = 0"
    with lo have "(1 - unit_err) * sum_list xs \<le> 0" by simp
    with e s0 show "sum_list xs = 0" by (simp add: mult_le_0_iff)
  next
    assume "sum_list xs = 0"
    with lo hi show "y = 0" by simp
  qed
qed

section \<open>The sum of the weights\<close>




section \<open>The range of the satisfaction percentage\<close>




section \<open>The two company figures\<close>

lemma np_sum_map_Finite: "np_sum (map (\<lambda>x. Finite (f x)) xs) = Finite (\<Sum>x\<leftarrow>xs. f x)"
  using foldl_fadd_Finite [of 0 "map f xs"] by (simp add: np_sum_def comp_def)

lemma np_mean_map_Finite:
  "xs \<noteq> [] \<Longrightarrow> np_mean (map (\<lambda>x. Finite (f x)) xs) = Finite (arith_mean (map f xs))"
  by (simp add: np_mean_def np_sum_map_Finite arith_mean_def)

lemma series_mean_map_Finite:
  "xs \<noteq> [] \<Longrightarrow> series_mean (map (\<lambda>x. Finite (f x)) xs) = Finite (arith_mean (map f xs))"
  using np_mean_map_Finite [of xs f] by (simp add: series_mean_skips_NaN filter_map comp_def)

lemma column_finite:
  assumes "\<forall>r\<in>set df. \<forall>c m. is_finite (cell r c m)"
  shows "column df c m = map (\<lambda>r. Finite (fin_val (cell r c m))) df"
  unfolding column_def using assms is_finite_val by (intro map_cong) auto

lemma display_loop_finite:
  assumes "\<forall>r\<in>set df. \<forall>c m. is_finite (cell r c m)"
    and "\<forall>r\<in>set df. (\<Sum>c\<leftarrow>categories. fin_val (cell r c Importance)) \<noteq> 0"
  shows "display_loop k df acc = Inr (acc @ map (\<lambda>r. Finite (satisfaction_pct r)) df)"
  using assms
proof (induction df arbitrary: acc)
  case Nil
  then show ?case by simp
next
  case (Cons r rs)
  from Cons.prems have "\<forall>c m. is_finite (cell r c m)"
    and "(\<Sum>c\<leftarrow>categories. fin_val (cell r c Importance)) \<noteq> 0" by simp_all
  from score_row_finite [OF this] obtain s where
    s: "score_row k r = Inr s" "satisfaction s = Finite (satisfaction_pct r)" by simp
  from Cons.prems have "display_loop k rs (acc @ [Finite (satisfaction_pct r)])
      = Inr ((acc @ [Finite (satisfaction_pct r)]) @ map (\<lambda>r. Finite (satisfaction_pct r)) rs)"
    by (intro Cons.IH) simp_all
  with s show ?case by simp
qed

lemma CSI_finite:
  assumes ne: "df \<noteq> []" and fin: "\<forall>r\<in>set df. \<forall>c m. is_finite (cell r c m)"
  shows "CSI (summary df) =
     fmul (fdiv (Finite (arith_mean (map (\<lambda>c. arith_mean (map (\<lambda>r. fin_val (cell r c Performance)) df)) categories)))
                (Finite (arith_mean (map (\<lambda>c. arith_mean (map (\<lambda>r. fin_val (cell r c Importance)) df)) categories))))
          (Finite 100)"
proof -
  have cne: "categories \<noteq> []" by (simp add: categories_def)
  have col: "series_mean (column df c m) = Finite (arith_mean (map (\<lambda>r. fin_val (cell r c m)) df))" for c m
    unfolding column_finite [OF fin] using ne by (rule series_mean_map_Finite)
  have i: "map avg_importance (summary df)
      = map (\<lambda>c. Finite (arith_mean (map (\<lambda>r. fin_val (cell r c Importance)) df))) categories"
    by (simp add: summary_def Let_def comp_def col)
  have p: "map avg_performance (summary df)
      = map (\<lambda>c. Finite (arith_mean (map (\<lambda>r. fin_val (cell r c Performance)) df))) categories"
    by (simp add: summary_def Let_def comp_def col)
  show ?thesis
    unfolding CSI_def Let_def i p series_mean_map_Finite [OF cne] ..
qed

text \<open>
  C5: on every frame the CSI is the mean of the category averages of performance, divided by
  the mean of the category averages of importance, times 100, each mean being taken over the
  categories whose average exists. On a frame with at least one row and no missing or
  infinite cell this is, in real arithmetic, the mean over the six categories of the average
  performance over the mean over the six categories of the average importance, times 100;
  when, besides, no row has a zero importance total, the display pass returns every row's
  satisfaction percentage, whichever kind of number the rows hold, and the average customer
  satisfaction is their mean over the customers. The two figures come from different formulas, and there is a frame on which
  they differ.
\<close>

theorem company_index_formulas:
  assumes "df \<noteq> []"
    and "\<forall>r\<in>set df. \<forall>c m. is_finite (cell r c m)"
    and "\<forall>r\<in>set df. (\<Sum>c\<leftarrow>categories. fin_val (cell r c Importance)) \<noteq> 0"
  shows "(\<forall>fr. CSI (summary fr) =
             fmul (fdiv (np_mean (filter (\<lambda>v. v \<noteq> NaN) (map avg_performance (summary fr))))
                        (np_mean (filter (\<lambda>v. v \<noteq> NaN) (map avg_importance (summary fr)))))
                  (Finite 100))
         \<and> CSI (summary df) =
           fmul (fdiv (Finite (arith_mean (map (\<lambda>c. arith_mean (map (\<lambda>r. fin_val (cell r c Performance)) df)) categories)))
                      (Finite (arith_mean (map (\<lambda>c. arith_mean (map (\<lambda>r. fin_val (cell r c Importance)) df)) categories))))
                (Finite 100)
         \<and> display_pass k df = Inr (map (\<lambda>r. Finite (satisfaction_pct r)) df)
         \<and> avg_customer_sat (map (\<lambda>r. Finite (satisfaction_pct r)) df)
             = Finite (arith_mean (map satisfaction_pct df))
         \<and> (\<exists>df' ratings'. display_pass k df' = Inr ratings'
               \<and> CSI (summary df') \<noteq> avg_customer_sat ratings')"
proof (intro conjI)
  show "\<forall>fr. CSI (summary fr) =
             fmul (fdiv (np_mean (filter (\<lambda>v. v \<noteq> NaN) (map avg_performance (summary fr))))
                        (np_mean (filter (\<lambda>v. v \<noteq> NaN) (map avg_importance (summary fr)))))
                  (Finite 100)"
    by (simp add: CSI_def Let_def series_mean_skips_NaN)
  show "CSI (summary df) =
           fmul (fdiv (Finite (arith_mean (map (\<lambda>c. arith_mean (map (\<lambda>r. fin_val (cell r c Performance)) df)) categories)))
                      (Finite (arith_mean (map (\<lambda>c. arith_mean (map (\<lambda>r. fin_val (cell r c Importance)) df)) categories))))
                (Finite 100)"
    using assms(1,2) by (rule CSI_finite)
  show "display_pass k df = Inr (map (\<lambda>r. Finite (satisfaction_pct r)) df)"
    using display_loop_finite [OF assms(2,3), of k "[]"] by (simp add: display_pass_def)
  show "avg_customer_sat (map (\<lambda>r. Finite (satisfaction_pct r)) df)
             = Finite (arith_mean (map satisfaction_pct df))"
    unfolding avg_customer_sat_def using assms(1) by (rule np_mean_map_Finite)
  have csi: "CSI (summary [ex_skewed]) = Finite 260"
    by (simp add: CSI_def summary_def Let_def column_def series_mean_def count_notna_def
        fill_zero_def np_sum_def categories_def ex_skewed_def survey_row_def)
  have dp: "display_pass k [ex_skewed] = Inr [Finite 60]"
    by (simp add: display_pass_def score_row_eq ex_skewed_def survey_row_def categories_def
        py_sum_def)
  have av: "avg_customer_sat [Finite 60] = Finite 60"
    by (simp add: avg_customer_sat_def np_mean_def np_sum_def)
  from csi av have "CSI (summary [ex_skewed]) \<noteq> avg_customer_sat [Finite 60]" by simp
  with dp show "\<exists>df' ratings'. display_pass k df' = Inr ratings'
               \<and> CSI (summary df') \<noteq> avg_customer_sat ratings'" by blast
qed

theorem company_index_formulas_witness:
  "[ex_mixed, ex_uniform] \<noteq> []
   \<and> list_all (\<lambda>r. \<forall>c m. is_finite (cell r c m)) [ex_mixed, ex_uniform]
   \<and> list_all (\<lambda>r. (\<Sum>c\<leftarrow>categories. fin_val (cell r c Importance)) \<noteq> 0) [ex_mixed, ex_uniform]
   \<and> CSI (summary [ex_mixed, ex_uniform]) = Finite 98
   \<and> display_pass PythonScalars [ex_mixed, ex_uniform] = Inr [Finite 54, Finite 100]
   \<and> avg_customer_sat [Finite 54, Finite 100] = Finite 77"
proof -
  have fm: "is_finite (cell ex_mixed c m)" for c m
    by (cases c; cases m) (simp_all add: ex_mixed_def survey_row_def)
  have fu: "is_finite (cell ex_uniform c m)" for c m
    by (cases c; cases m) (simp_all add: ex_uniform_def survey_row_def)
  have n: "[ex_mixed, ex_uniform] \<noteq> []" by simp
  have f: "\<forall>r\<in>set [ex_mixed, ex_uniform]. \<forall>c m. is_finite (cell r c m)"
    using fm fu by simp
  have t: "\<forall>r\<in>set [ex_mixed, ex_uniform]. (\<Sum>c\<leftarrow>categories. fin_val (cell r c Importance)) \<noteq> 0"
    by (simp add: categories_def ex_mixed_def ex_uniform_def survey_row_def)
  have pm: "satisfaction_pct ex_mixed = 54"
    by (simp add: satisfaction_pct_def categories_def ex_mixed_def survey_row_def)
  have pu: "satisfaction_pct ex_uniform = 100"
    by (simp add: satisfaction_pct_def categories_def ex_uniform_def survey_row_def)
  note th = company_index_formulas [OF n f t, of PythonScalars]
  have "CSI (summary [ex_mixed, ex_uniform]) = Finite 98"
    unfolding th [THEN conjunct2, THEN conjunct1]
    by (simp add: arith_mean_def categories_def ex_mixed_def ex_uniform_def survey_row_def)
  moreover have "display_pass PythonScalars [ex_mixed, ex_uniform] = Inr [Finite 54, Finite 100]"
    unfolding th [THEN conjunct2, THEN conjunct2, THEN conjunct1] by (simp add: pm pu)
  moreover have "avg_customer_sat [Finite 54, Finite 100] = Finite 77"
    using th [THEN conjunct2, THEN conjunct2, THEN conjunct2, THEN conjunct1]
    by (simp add: pm pu arith_mean_def)
  ultimately show ?thesis
    using f t by (simp add: list_all_iff)
qed

section \<open>Dispersion\<close>

lemma nanvar_present:
  assumes present: "filter (\<lambda>v. v \<noteq> NaN) col = map Finite xs" and ne: "xs \<noteq> []"
  shows "nanvar col 0 =
           Finite ((\<Sum>x\<leftarrow>xs. (x - sum_list xs / real (length xs))\<^sup>2) / real (length xs))"
proof -
  let ?n = "real (length xs)" and ?mu = "sum_list xs / real (length xs)"
  have count: "count_notna col = length xs"
    by (simp add: count_notna_def present)
  have "np_sum (fill_zero col) = np_sum (map (\<lambda>x. Finite x) xs)"
    by (simp add: np_sum_fill_zero present)
  then have total: "np_sum (fill_zero col) = Finite (sum_list xs)"
    by (simp add: np_sum_map_Finite)
  have avg: "fdiv (np_sum (fill_zero col)) (Finite ?n) = Finite ?mu"
    using ne by (simp add: total)
  have "np_sum (map (\<lambda>v. if v = NaN then Finite 0
                          else fmul (fsub (Finite ?mu) v) (fsub (Finite ?mu) v)) col)
        = np_sum (map (\<lambda>v. fmul (fsub (Finite ?mu) v) (fsub (Finite ?mu) v)) (map Finite xs))"
    unfolding np_sum_def foldl_fadd_masked present ..
  also have "\<dots> = np_sum (map (\<lambda>x. Finite ((x - ?mu)\<^sup>2)) xs)"
    by (simp add: comp_def fsub_def Let_def power2_eq_square algebra_simps)
  also have "\<dots> = Finite (\<Sum>x\<leftarrow>xs. (x - ?mu)\<^sup>2)"
    by (rule np_sum_map_Finite)
  finally have sq: "np_sum (map (\<lambda>v. if v = NaN then Finite 0
                          else fmul (fsub (Finite ?mu) v) (fsub (Finite ?mu) v)) col)
        = Finite (\<Sum>x\<leftarrow>xs. (x - ?mu)\<^sup>2)" .
  from ne have pos: "\<not> length xs \<le> 0" by simp
  show ?thesis
    unfolding nanvar_def count Let_def avg sq using ne pos by simp
qed

lemma np_std_present:
  assumes "filter (\<lambda>v. v \<noteq> NaN) col = map Finite xs" and "xs \<noteq> []"
  shows "np_std col = Finite (population_std xs)"
proof -
  have "0 \<le> (\<Sum>x\<leftarrow>xs. (x - sum_list xs / real (length xs))\<^sup>2)"
    by (rule sum_list_nonneg) auto
  then have "\<not> (\<Sum>x\<leftarrow>xs. (x - sum_list xs / real (length xs))\<^sup>2) / real (length xs) < 0"
    by (simp add: not_less)
  then show ?thesis
    unfolding np_std_def series_std_def nanvar_present [OF assms]
    by (simp add: population_std_def arith_mean_def)
qed

text \<open>
  C8: for every category, the dispersion the consistency table reports is the population
  standard deviation (the squared deviations from the mean summed and divided by n, not by
  n - 1) of the performance values of that category: over all rows when none is missing,
  and over the rows whose value is present otherwise.
\<close>

theorem dispersion_is_population_std:
  assumes "filter (\<lambda>v. v \<noteq> NaN) (column df c Performance) = map Finite xs" and "xs \<noteq> []"
  shows "\<lparr>variation_category = c, difference_in_ratings = Finite (population_std xs)\<rparr>
           \<in> set (variation df)"
proof -
  have "c \<in> set categories"
    by (cases c) (simp_all add: categories_def)
  then show ?thesis
    using np_std_present [OF assms] by (auto simp: variation_def image_iff)
qed

text \<open>
  Three customers rate Competence 5, 5 and 2: the mean is 4, the squared deviations sum to 6,
  and the table shows the square root of 6/3 (dividing by n - 1 would give that of 6/2).
\<close>

theorem dispersion_is_population_std_witness:
  "filter (\<lambda>v. v \<noteq> NaN) (column [ex_gappy, ex_skewed, ex_partial] Competence Performance)
      = map Finite [5, 5, 2]
   \<and> [5, 5, 2::real] \<noteq> []
   \<and> \<lparr>variation_category = Competence, difference_in_ratings = Finite (sqrt 2)\<rparr>
       \<in> set (variation [ex_gappy, ex_skewed, ex_partial])"
proof -
  have h: "filter (\<lambda>v. v \<noteq> NaN) (column [ex_gappy, ex_skewed, ex_partial] Competence Performance)
      = map Finite [5, 5, 2]"
    by (simp add: column_def ex_gappy_def ex_skewed_def ex_partial_def survey_row_def)
  have n: "[5, 5, 2::real] \<noteq> []" by simp
  have v: "population_std [5, 5, 2] = sqrt 2"
    by (simp add: population_std_def arith_mean_def power2_eq_square)
  from dispersion_is_population_std [OF h n] h n show ?thesis by (simp only: v simp_thms)
qed

end
